theory Spec2Isabelle
  imports Main
begin

section \<open>Python values and exceptions\<close>

text \<open>
  The header value that Flask hands to \<^verbatim>\<open>get_token_auth_header\<close> is a WSGI native
  string: every character is a code point in 0..255. A HOL \<^typ>\<open>char\<close> is exactly such a
  code point, so a header is a \<^typ>\<open>string\<close>.
\<close>

text \<open>
  Values produced by \<^verbatim>\<open>json.loads\<close> and by the token library: \<^verbatim>\<open>None\<close>, booleans,
  integers, strings, lists and dicts (a dict as an association list with distinct keys).
  JSON numbers with a fraction are not represented.
\<close>

datatype json =
    JNull
  | JBool bool
  | JInt int
  | JStr string
  | JArr "json list"
  | JObj "(string \<times> json) list"

type_synonym py_dict = "(string \<times> json) list"

text \<open>
  Exceptions as values. \<open>AuthError error code description status_code\<close> is the class of
  \<^verbatim>\<open>auth.py\<close>: its first three fields are the entries of the \<^verbatim>\<open>error\<close> dict, the fourth
  is \<^verbatim>\<open>status_code\<close>. The others are the built-in exceptions the code can run into and
  the exceptions of the token library; \<open>OtherException\<close> stands for any further exception
  class (a failed download, a body that is not JSON).
\<close>

datatype py_exc =
    AuthError int string string int
  | IndexError
  | KeyError string
  | TypeError
  | JWTError
  | ExpiredSignatureError
  | JWTClaimsError
  | OtherException string

section \<open>String operations of the extractor\<close>

text \<open>\<^verbatim>\<open>str.isspace\<close> on one character of the range 0..255.\<close>

definition py_isspace :: "char \<Rightarrow> bool" where
  "py_isspace c = ((of_char c :: nat) \<in> {9, 10, 11, 12, 13, 28, 29, 30, 31, 32, 133, 160})"

text \<open>
  \<^verbatim>\<open>str.split()\<close> with no argument: the maximal runs of characters that are not white
  space, in order. The first argument is the run read so far.
\<close>

fun split_ws :: "string \<Rightarrow> string \<Rightarrow> string list" where
  "split_ws cur [] = (if cur = [] then [] else [cur])"
| "split_ws cur (c # cs) =
     (if py_isspace c then (if cur = [] then split_ws [] cs else cur # split_ws [] cs)
      else split_ws (cur @ [c]) cs)"

definition py_split :: "string \<Rightarrow> string list" where
  "py_split s = split_ws [] s"

text \<open>
  \<^verbatim>\<open>str.lower\<close> on the range 0..255: the letters A..Z and the accented capitals
  0xC0..0xDE (0xD7, the multiplication sign, apart) move up by 32.
\<close>

definition lower_char :: "char \<Rightarrow> char" where
  "lower_char c =
     (let n = (of_char c :: nat)
      in if (65 \<le> n \<and> n \<le> 90) \<or> (192 \<le> n \<and> n \<le> 222 \<and> n \<noteq> 215)
         then char_of (n + 32) else c)"

definition py_lower :: "string \<Rightarrow> string" where
  "py_lower s = map lower_char s"

section \<open>Token Extractor\<close>

text \<open>
  \<^verbatim>\<open>get_token_auth_header\<close>, lines 28 to 66. The argument is the result of
  \<^verbatim>\<open>request.headers.get('Authorization', None)\<close>. \<^verbatim>\<open>not auth\<close> holds for \<^verbatim>\<open>None\<close> and for
  the empty string. \<^verbatim>\<open>parts[0]\<close> on an empty list raises \<^verbatim>\<open>IndexError\<close>.
\<close>

definition get_token_auth_header :: "string option \<Rightarrow> py_exc + string" where
  \<open>get_token_auth_header auth =
     (case auth of
        None \<Rightarrow> Inl (AuthError 401 ''authorization_header_missing''
                      ''Authorization header is expected.'' 401)
      | Some a \<Rightarrow>
          if a = [] then Inl (AuthError 401 ''authorization_header_missing''
                              ''Authorization header is expected.'' 401)
          else
            (let parts = py_split a in
             case parts of
               [] \<Rightarrow> Inl IndexError
             | p0 # rest \<Rightarrow>
                 if py_lower p0 \<noteq> ''bearer''
                 then Inl (AuthError 401 ''invalid_header''
                            ''Authorization header must start with "Bearer".'' 401)
                 else if length parts = 1
                 then Inl (AuthError 401 ''invalid_header'' ''Token not found.'' 401)
                 else if length parts > 2
                 then Inl (AuthError 401 ''invalid_header''
                            ''Authorization header must be bearer token.'' 401)
                 else Inr (parts ! 1)))\<close>

section \<open>Operations on JSON values\<close>

text \<open>An expression evaluated after another one: the first exception raised is the outcome.\<close>

definition and_then :: "py_exc + 'a \<Rightarrow> ('a \<Rightarrow> py_exc + 'b) \<Rightarrow> py_exc + 'b" where
  "and_then r k = (case r of Inl e \<Rightarrow> Inl e | Inr x \<Rightarrow> k x)"

text \<open>
  Python's \<^verbatim>\<open>==\<close> on two such values. A boolean is an integer (\<^verbatim>\<open>True == 1\<close>); lists
  compare element by element; dicts compare by key.
\<close>

fun py_eq :: "json \<Rightarrow> json \<Rightarrow> bool" where
  "py_eq JNull y = (case y of JNull \<Rightarrow> True | _ \<Rightarrow> False)"
| "py_eq (JBool a) y =
     (case y of JBool b \<Rightarrow> a = b | JInt j \<Rightarrow> (if a then 1 else 0) = j | _ \<Rightarrow> False)"
| "py_eq (JInt i) y =
     (case y of JInt j \<Rightarrow> i = j | JBool b \<Rightarrow> i = (if b then 1 else 0) | _ \<Rightarrow> False)"
| "py_eq (JStr s) y = (case y of JStr t \<Rightarrow> s = t | _ \<Rightarrow> False)"
| "py_eq (JArr xs) y = (case y of JArr ys \<Rightarrow> list_all2 py_eq xs ys | _ \<Rightarrow> False)"
| "py_eq (JObj kvs) y =
     (case y of
        JObj kvs' \<Rightarrow>
          length kvs = length kvs' \<and>
          list_all (\<lambda>kv. case map_of kvs' (fst kv) of
                            None \<Rightarrow> False
                          | Some v' \<Rightarrow> py_eq (snd kv) v') kvs
      | _ \<Rightarrow> False)"

text \<open>
  \<^verbatim>\<open>obj[key]\<close> with a string key: a dict gives the value or raises \<^verbatim>\<open>KeyError\<close>; a
  list, a string, a number and \<^verbatim>\<open>None\<close> raise \<^verbatim>\<open>TypeError\<close>.
\<close>

fun py_getitem :: "json \<Rightarrow> string \<Rightarrow> py_exc + json" where
  "py_getitem (JObj kvs) k = (case map_of kvs k of None \<Rightarrow> Inl (KeyError k) | Some v \<Rightarrow> Inr v)"
| "py_getitem _ k = Inl TypeError"

text \<open>
  \<^verbatim>\<open>for x in obj\<close>: a list gives its elements, a dict its keys, a string its characters;
  anything else is not iterable.
\<close>

fun py_iter :: "json \<Rightarrow> py_exc + json list" where
  "py_iter (JArr xs) = Inr xs"
| "py_iter (JObj kvs) = Inr (map (\<lambda>kv. JStr (fst kv)) kvs)"
| "py_iter (JStr s) = Inr (map (\<lambda>c. JStr [c]) s)"
| "py_iter _ = Inl TypeError"

text \<open>\<^verbatim>\<open>p in s\<close> for two strings: \<open>p\<close> occurs in \<open>s\<close> as a contiguous run.\<close>

fun is_substring :: "string \<Rightarrow> string \<Rightarrow> bool" where
  "is_substring p [] = (p = [])"
| "is_substring p (c # cs) = (take (length p) (c # cs) = p \<or> is_substring p cs)"

text \<open>
  \<^verbatim>\<open>p in obj\<close> for a string \<open>p\<close>: membership by \<^verbatim>\<open>==\<close> in a list, key membership in a
  dict, the substring test in a string; \<^verbatim>\<open>TypeError\<close> otherwise.
\<close>

fun py_contains :: "string \<Rightarrow> json \<Rightarrow> py_exc + bool" where
  "py_contains p (JArr xs) = Inr (list_ex (\<lambda>x. py_eq x (JStr p)) xs)"
| "py_contains p (JObj kvs) = Inr (list_ex (\<lambda>kv. fst kv = p) kvs)"
| "py_contains p (JStr s) = Inr (is_substring p s)"
| "py_contains p _ = Inl TypeError"

section \<open>Permission Checker\<close>

text \<open>
  \<^verbatim>\<open>check_permissions\<close>, lines 69 to 92. The payload is the dict of claims that the
  token library returned.
\<close>

definition check_permissions :: "string \<Rightarrow> py_dict \<Rightarrow> py_exc + bool" where
  "check_permissions permission payload =
     (case map_of payload ''permissions'' of
        None \<Rightarrow> Inl (AuthError 400 ''invalid_claims'' ''Permissions not included in JWT.'' 400)
      | Some perms \<Rightarrow>
          (case py_contains permission perms of
             Inl e \<Rightarrow> Inl e
           | Inr found \<Rightarrow>
               if \<not> found
               then Inl (AuthError 403 ''unauthorized'' ''Permission not found.'' 403)
               else Inr True))"

section \<open>Environment, effects and sequencing\<close>

text \<open>
  What \<^verbatim>\<open>auth.py\<close> reads but does not define: the three module globals read from the
  process environment (\<^verbatim>\<open>os.getenv\<close> gives \<^verbatim>\<open>None\<close> for an unset variable), the
  \<^verbatim>\<open>Authorization\<close> header of the current request, and the outcomes of the library
  calls. \<open>urlopen_json url\<close> is the outcome of lines 102 and 103 together (the download
  and \<^verbatim>\<open>json.loads\<close> of the body); \<open>get_unverified_header\<close> and \<open>jwt_decode\<close> are the two
  functions of the token library, each returning a dict or raising.
\<close>

record env =
  AUTH0_DOMAIN :: "string option"
  ALGORITHMS :: "string option"
  API_AUDIENCE :: "string option"
  authorization :: "string option"
  urlopen_json :: "string \<Rightarrow> py_exc + json"
  get_unverified_header :: "string \<Rightarrow> py_exc + py_dict"
  jwt_decode ::
    "string \<Rightarrow> py_dict \<Rightarrow> string option \<Rightarrow> string option \<Rightarrow> string \<Rightarrow> py_exc + py_dict"

text \<open>The observable effect of the pipeline: the URLs requested, oldest first.\<close>

record world =
  fetched :: "string list"

type_synonym 'a action = "world \<Rightarrow> (py_exc + 'a) \<times> world"

definition raise_action :: "py_exc \<Rightarrow> 'a action" where
  "raise_action e w = (Inl e, w)"

text \<open>A call without effect, as a step of a sequence.\<close>

definition pure_action :: "py_exc + 'a \<Rightarrow> 'a action" where
  "pure_action r w = (r, w)"

text \<open>
  One statement after another: when the first raises, the second does not run and the
  exception is the outcome.
\<close>

definition then_action :: "'a action \<Rightarrow> ('a \<Rightarrow> 'b action) \<Rightarrow> 'b action" where
  "then_action m k w =
     (case m w of
        (Inl e, w') \<Rightarrow> (Inl e, w')
      | (Inr x, w') \<Rightarrow> k x w')"

section \<open>Key Set Resolver\<close>

text \<open>The f-string of line 102; \<^verbatim>\<open>None\<close> is formatted as the text \<^verbatim>\<open>None\<close>.\<close>

definition jwks_url :: "env \<Rightarrow> string" where
  "jwks_url env =
     ''https://'' @ (case AUTH0_DOMAIN env of None \<Rightarrow> ''None'' | Some d \<Rightarrow> d)
       @ ''/.well-known/jwks.json''"

definition urlopen :: "env \<Rightarrow> string \<Rightarrow> json action" where
  "urlopen env url w = (urlopen_json env url, w\<lparr>fetched := fetched w @ [url]\<rparr>)"

text \<open>
  The dict literal of lines 115 to 121: the five subscriptions are evaluated in the order
  written, and the first missing one raises.
\<close>

definition project_key :: "json \<Rightarrow> py_exc + py_dict" where
  "project_key key =
     and_then (py_getitem key ''kty'') (\<lambda>kty.
     and_then (py_getitem key ''kid'') (\<lambda>kid.
     and_then (py_getitem key ''use'') (\<lambda>use.
     and_then (py_getitem key ''n'') (\<lambda>n.
     and_then (py_getitem key ''e'') (\<lambda>e.
       Inr [(''kty'', kty), (''kid'', kid), (''use'', use), (''n'', n), (''e'', e)])))))"

text \<open>
  The body of the loop of lines 113 to 121 for one element \<open>key\<close>: the value of
  \<^verbatim>\<open>rsa_key\<close> after the iteration.
\<close>

definition select_key :: "json \<Rightarrow> py_dict \<Rightarrow> py_dict \<Rightarrow> py_exc + py_dict" where
  "select_key key unverified_header rsa_key =
     and_then (py_getitem key ''kid'') (\<lambda>kid.
     and_then (py_getitem (JObj unverified_header) ''kid'') (\<lambda>hkid.
       if py_eq kid hkid then project_key key else Inr rsa_key))"

text \<open>The loop itself: it has no \<^verbatim>\<open>break\<close>, so every element is visited.\<close>

fun rsa_key_loop :: "json list \<Rightarrow> py_dict \<Rightarrow> py_dict \<Rightarrow> py_exc + py_dict" where
  "rsa_key_loop [] unverified_header rsa_key = Inr rsa_key"
| "rsa_key_loop (key # keys) unverified_header rsa_key =
     (case select_key key unverified_header rsa_key of
        Inl e \<Rightarrow> Inl e
      | Inr rsa_key' \<Rightarrow> rsa_key_loop keys unverified_header rsa_key')"

text \<open>
  Lines 113 to 121 with \<^verbatim>\<open>rsa_key = {}\<close> of line 105: \<^verbatim>\<open>jwks['keys']\<close> is
  subscripted, then iterated.
\<close>

definition find_rsa_key :: "json \<Rightarrow> py_dict \<Rightarrow> py_exc + py_dict" where
  "find_rsa_key jwks unverified_header =
     and_then (py_getitem jwks ''keys'') (\<lambda>ks.
     and_then (py_iter ks) (\<lambda>keys.
       rsa_key_loop keys unverified_header []))"

section \<open>Token Verifier\<close>

text \<open>
  The three \<^verbatim>\<open>except\<close> clauses of lines 137 to 156, tried in order: the exception that
  leaves the \<^verbatim>\<open>try\<close> statement for the exception raised inside it.
\<close>

fun decode_handler :: "py_exc \<Rightarrow> py_exc" where
  "decode_handler ExpiredSignatureError = AuthError 401 ''token_expired'' ''Token expired.'' 401"
| "decode_handler JWTClaimsError =
     AuthError 401 ''invalid_claims''
       ''Incorrect claims. Please, check the audience and issuer.'' 401"
| "decode_handler _ =
     AuthError 400 ''invalid_header'' ''Unable to parse authentication token.'' 400"

text \<open>
  The \<^verbatim>\<open>try\<close> statement of lines 126 to 156. The arguments of the call are evaluated
  inside the \<^verbatim>\<open>try\<close>: with \<^verbatim>\<open>AUTH0_DOMAIN\<close> unset, \<^verbatim>\<open>'https://' + None\<close> raises
  \<^verbatim>\<open>TypeError\<close> there.
\<close>

definition try_decode :: "env \<Rightarrow> string \<Rightarrow> py_dict \<Rightarrow> py_exc + py_dict" where
  "try_decode env token rsa_key =
     (case (case AUTH0_DOMAIN env of
              None \<Rightarrow> Inl TypeError
            | Some d \<Rightarrow>
                jwt_decode env token rsa_key (ALGORITHMS env) (API_AUDIENCE env)
                  (''https://'' @ d @ ''/'')) of
        Inr payload \<Rightarrow> Inr payload
      | Inl e \<Rightarrow> Inl (decode_handler e))"

text \<open>\<^verbatim>\<open>verify_decode_jwt\<close>, lines 95 to 161. An empty dict is false in line 125.\<close>

definition verify_decode_jwt :: "env \<Rightarrow> string \<Rightarrow> py_dict action" where
  "verify_decode_jwt env token =
     then_action (urlopen env (jwks_url env)) (\<lambda>jwks.
     then_action (pure_action (get_unverified_header env token)) (\<lambda>unverified_header.
       if map_of unverified_header ''kid'' = None
       then raise_action (AuthError 401 ''invalid_header'' ''Authorization malformed.'' 401)
       else
         then_action (pure_action (find_rsa_key jwks unverified_header)) (\<lambda>rsa_key.
           if rsa_key \<noteq> []
           then pure_action (try_decode env token rsa_key)
           else raise_action
                  (AuthError 400 ''invalid_header''
                     ''Unable to find the appropriate key.'' 400))))"

section \<open>Guard\<close>

text \<open>
  \<^verbatim>\<open>wrapper\<close>, lines 172 to 176, for a wrapped operation \<open>f\<close> that takes the token and
  the caller's arguments and may itself act on the world.
\<close>

definition wrapper :: "env \<Rightarrow> string \<Rightarrow> (string \<Rightarrow> 'a \<Rightarrow> 'r action) \<Rightarrow> 'a \<Rightarrow> 'r action" where
  "wrapper env permission f args =
     then_action (pure_action (get_token_auth_header (authorization env))) (\<lambda>token.
     then_action (verify_decode_jwt env token) (\<lambda>payload.
     then_action (pure_action (check_permissions permission payload)) (\<lambda>_.
       f token args)))"

text \<open>
  \<^verbatim>\<open>requires_auth\<close>, line 164: \<open>None\<close> is the call without an argument, for which the
  parameter takes its default, the empty string.
\<close>

definition requires_auth ::
  "env \<Rightarrow> string option \<Rightarrow> (string \<Rightarrow> 'a \<Rightarrow> 'r action) \<Rightarrow> 'a \<Rightarrow> 'r action" where
  "requires_auth env permission_arg f =
     wrapper env (case permission_arg of None \<Rightarrow> '''' | Some p \<Rightarrow> p) f"

section \<open>The lookup in the words of the specification\<close>

text \<open>A record of the keys array whose \<^verbatim>\<open>kid\<close> equals the key identifier \<open>hkid\<close>.\<close>

definition kid_matches :: "json \<Rightarrow> json \<Rightarrow> bool" where
  "kid_matches hkid key =
     (case py_getitem key ''kid'' of Inl e \<Rightarrow> False | Inr kid \<Rightarrow> py_eq kid hkid)"

text \<open>The first and the last record of the array whose \<^verbatim>\<open>kid\<close> matches, if there is one.\<close>

definition first_matching_key :: "json list \<Rightarrow> json \<Rightarrow> json option" where
  "first_matching_key keys hkid =
     (case filter (kid_matches hkid) keys of [] \<Rightarrow> None | key # _ \<Rightarrow> Some key)"

definition last_matching_key :: "json list \<Rightarrow> json \<Rightarrow> json option" where
  "last_matching_key keys hkid =
     (case filter (kid_matches hkid) keys of [] \<Rightarrow> None | key # ms \<Rightarrow> Some (last (key # ms)))"

text \<open>
  The lookup as the specification words it: the projection of the first matching record,
  and the empty result when no record matches.
\<close>

definition spec_key_lookup :: "json list \<Rightarrow> json \<Rightarrow> py_exc + py_dict" where
  "spec_key_lookup keys hkid =
     (case first_matching_key keys hkid of None \<Rightarrow> Inr [] | Some key \<Rightarrow> project_key key)"

text \<open>A record that is a dict with the five entries the projection reads.\<close>

definition well_formed_jwk :: "json \<Rightarrow> bool" where
  "well_formed_jwk key =
     (case key of
        JObj kvs \<Rightarrow> list_all (\<lambda>field. map_of kvs field \<noteq> None) [''kty'', ''kid'', ''use'', ''n'', ''e'']
      | _ \<Rightarrow> False)"

section \<open>A concrete scenario\<close>

text \<open>
  One identity provider, one well-formed token and the library's answers for them; the
  closed theorems below evaluate the pipeline in this scenario and in variations of it.
  The library rejects every other token as malformed.
\<close>

definition sample_key :: "string \<Rightarrow> string \<Rightarrow> json" where
  "sample_key kid n =
     JObj [(''alg'', JStr ''RS256''), (''kty'', JStr ''RSA''), (''use'', JStr ''sig''),
           (''n'', JStr n), (''e'', JStr ''AQAB''), (''kid'', JStr kid)]"

definition sample_jwks :: json where
  "sample_jwks = JObj [(''keys'', JArr [sample_key ''k1'' ''N1'', sample_key ''k2'' ''N2''])]"

definition sample_header :: py_dict where
  "sample_header = [(''alg'', JStr ''RS256''), (''typ'', JStr ''JWT''), (''kid'', JStr ''k2'')]"

definition sample_payload :: py_dict where
  "sample_payload =
     [(''iss'', JStr ''https://example.auth0.com/''), (''aud'', JStr ''classes''),
      (''exp'', JInt 1800000000), (''permissions'', JArr [JStr ''get:students''])]"

definition sample_env :: env where
  "sample_env =
     \<lparr> AUTH0_DOMAIN = Some ''example.auth0.com'',
       ALGORITHMS = Some ''RS256'',
       API_AUDIENCE = Some ''classes'',
       authorization = Some ''Bearer h.p.s'',
       urlopen_json = (\<lambda>url. if url = ''https://example.auth0.com/.well-known/jwks.json''
                              then Inr sample_jwks else Inl (OtherException ''URLError'')),
       get_unverified_header = (\<lambda>t. if t = ''h.p.s'' then Inr sample_header else Inl JWTError),
       jwt_decode = (\<lambda>t key algs aud iss.
                       if t = ''h.p.s'' \<and> map_of key ''n'' = Some (JStr ''N2'')
                          \<and> algs = Some ''RS256'' \<and> aud = Some ''classes''
                          \<and> iss = ''https://example.auth0.com/''
                       then Inr sample_payload else Inl JWTError) \<rparr>"

text \<open>
  A variation: the provider publishes one key without a \<^verbatim>\<open>kid\<close>, which the key format
  leaves optional.
\<close>

definition kidless_jwks :: json where
  "kidless_jwks =
     JObj [(''keys'', JArr [JObj [(''kty'', JStr ''RSA''), (''use'', JStr ''sig''),
                                  (''n'', JStr ''N1''), (''e'', JStr ''AQAB'')]])]"

definition kidless_env :: env where
  "kidless_env = sample_env\<lparr>urlopen_json := (\<lambda>url. Inr kidless_jwks)\<rparr>"

text \<open>A wrapped operation that returns the token it was given and leaves the world alone.\<close>

definition echo_token :: "string \<Rightarrow> unit \<Rightarrow> string action" where
  "echo_token token args w = (Inr token, w)"

section \<open>Properties of the extractor\<close>

lemma get_token_bearer_example:
  "get_token_auth_header (Some ''Bearer abc.def.ghi'') = Inr ''abc.def.ghi''"
  by code_simp

text \<open>
  A header that is present, not empty, and splits into at least one segment: when the
  number of segments is not two, or the first one is not \<^verbatim>\<open>bearer\<close> in lower case, the
  extractor raises \<^verbatim>\<open>AuthError\<close> with status 401 and code \<^verbatim>\<open>invalid_header\<close>.
\<close>

lemma get_token_invalid_header:
  assumes "a \<noteq> []" and "py_split a \<noteq> []"
    and "length (py_split a) \<noteq> 2 \<or> py_lower (hd (py_split a)) \<noteq> ''bearer''"
  shows "\<exists>d. get_token_auth_header (Some a) = Inl (AuthError 401 ''invalid_header'' d 401)"
proof -
  from assms(2) obtain p0 rest where parts: "py_split a = p0 # rest"
    by (cases "py_split a") auto
  show ?thesis
  proof (cases "py_lower p0 = ''bearer''")
    case False
    with assms(1) parts show ?thesis
      by (simp add: get_token_auth_header_def)
  next
    case True
    with assms(3) parts have len: "length rest \<noteq> 1" by simp
    show ?thesis
    proof (cases rest)
      case Nil
      with assms(1) parts True show ?thesis
        by (simp add: get_token_auth_header_def)
    next
      case (Cons t ts)
      with len have "ts \<noteq> []" by simp
      with assms(1) parts True Cons show ?thesis
        by (simp add: get_token_auth_header_def)
    qed
  qed
qed

text \<open>A header made of white space only has no segment, and line 44 raises \<^verbatim>\<open>IndexError\<close>.\<close>

lemma split_ws_all_space: "list_all py_isspace s \<Longrightarrow> split_ws [] s = []"
  by (induction s) simp_all

lemma get_token_blank_header:
  assumes "a \<noteq> []" and "list_all py_isspace a"
  shows "get_token_auth_header (Some a) = Inl IndexError"
  using assms by (simp add: get_token_auth_header_def py_split_def split_ws_all_space)

text \<open>
  Claim C1. The claim asks that every present, non-empty header whose segment count is
  not two, headers with no segment included, ends in \<^verbatim>\<open>AuthError\<close> 401
  \<^verbatim>\<open>invalid_header\<close> and in no other exception. The header that is one space splits
  into no segment, and the extractor raises \<^verbatim>\<open>IndexError\<close> on it; so does the header
  that is one no-break space (code point 160).
\<close>

theorem C1_blank_header_raises_IndexError:
  "py_split '' '' = [] \<and> get_token_auth_header (Some '' '') = Inl IndexError
   \<and> py_split [CHR 0xA0] = [] \<and> get_token_auth_header (Some [CHR 0xA0]) = Inl IndexError"
  by code_simp

text \<open>
  Claim C10. A header that is present and equal to the empty string is treated as an
  absent one: the extractor raises \<^verbatim>\<open>AuthError\<close> 401 \<^verbatim>\<open>authorization_header_missing\<close>,
  the very outcome of a request without the header.
\<close>

theorem C10_empty_header_is_missing:
  "get_token_auth_header (Some '''') =
     Inl (AuthError 401 ''authorization_header_missing''
            ''Authorization header is expected.'' 401)
   \<and> get_token_auth_header (Some '''') = get_token_auth_header None"
  by (simp add: get_token_auth_header_def)

section \<open>Properties of the permission checker\<close>

text \<open>Against a string, \<^verbatim>\<open>==\<close> holds for that string only.\<close>

lemma py_eq_JStr: "py_eq x (JStr p) = (x = JStr p)"
  by (cases x) auto

text \<open>
  Claim C9, as amended. For a required permission and a dict of claims whose
  \<^verbatim>\<open>permissions\<close> entry, when present, is a list: without a \<^verbatim>\<open>permissions\<close> entry the
  checker raises \<^verbatim>\<open>AuthError\<close> 400 \<^verbatim>\<open>invalid_claims\<close>; with a list of which the
  permission is not a member it raises \<^verbatim>\<open>AuthError\<close> 403 \<^verbatim>\<open>unauthorized\<close>; with a list
  of which it is a member it returns \<^verbatim>\<open>True\<close>.
\<close>

theorem C9_check_permissions:
  "(map_of payload ''permissions'' = None \<longrightarrow>
      check_permissions permission payload =
        Inl (AuthError 400 ''invalid_claims'' ''Permissions not included in JWT.'' 400))
   \<and> (map_of payload ''permissions'' = Some (JArr perms) \<and> JStr permission \<notin> set perms \<longrightarrow>
      check_permissions permission payload =
        Inl (AuthError 403 ''unauthorized'' ''Permission not found.'' 403))
   \<and> (map_of payload ''permissions'' = Some (JArr perms) \<and> JStr permission \<in> set perms \<longrightarrow>
      check_permissions permission payload = Inr True)"
  by (simp add: check_permissions_def list_ex_iff py_eq_JStr)

text \<open>
  The three cases at concrete claims: no \<^verbatim>\<open>permissions\<close> entry, and the list
  \<^verbatim>\<open>["get:students"]\<close> checked for \<^verbatim>\<open>post:students\<close> and for \<^verbatim>\<open>get:students\<close>.
\<close>

theorem C9_check_permissions_witness:
  "check_permissions ''get:students'' [(''sub'', JStr ''auth0|1'')] =
     Inl (AuthError 400 ''invalid_claims'' ''Permissions not included in JWT.'' 400)
   \<and> check_permissions ''post:students''
        [(''sub'', JStr ''auth0|1''), (''permissions'', JArr [JStr ''get:students''])] =
     Inl (AuthError 403 ''unauthorized'' ''Permission not found.'' 403)
   \<and> check_permissions ''get:students''
        [(''sub'', JStr ''auth0|1''), (''permissions'', JArr [JStr ''get:students''])] =
     Inr True"
  using
    C9_check_permissions [of "[(''sub'', JStr ''auth0|1'')]" "''get:students''" "[]"]
    C9_check_permissions [of "[(''sub'', JStr ''auth0|1''), (''permissions'', JArr [JStr ''get:students''])]"
       "''post:students''" "[JStr ''get:students'']"]
    C9_check_permissions [of "[(''sub'', JStr ''auth0|1''), (''permissions'', JArr [JStr ''get:students''])]"
       "''get:students''" "[JStr ''get:students'']"]
  by simp

text \<open>
  The claim as the specification states it, for every dict of claims, fails on claims
  whose \<^verbatim>\<open>permissions\<close> entry is a number or \<^verbatim>\<open>null\<close>: the entry is present, and line 84
  raises \<^verbatim>\<open>TypeError\<close>, which is none of the three outcomes.
\<close>

theorem C9_non_list_counterexample:
  "map_of [(''permissions'', JInt 3)] ''permissions'' = Some (JInt 3)
   \<and> check_permissions ''get:students'' [(''permissions'', JInt 3)] = Inl TypeError
   \<and> check_permissions ''get:students'' [(''permissions'', JInt 3)] \<noteq>
       Inl (AuthError 403 ''unauthorized'' ''Permission not found.'' 403)
   \<and> check_permissions ''get:students'' [(''permissions'', JInt 3)] \<noteq> Inr True
   \<and> check_permissions ''get:students'' [(''permissions'', JNull)] = Inl TypeError"
  by code_simp

text \<open>The substring test finds exactly the contiguous occurrences.\<close>

lemma is_substring_iff: "is_substring p s \<longleftrightarrow> (\<exists>a b. s = a @ p @ b)"
proof (induction s)
  case Nil
  show ?case by auto
next
  case (Cons c cs)
  have pre: "take (length p) (c # cs) = p \<longleftrightarrow> (\<exists>b. c # cs = p @ b)"
  proof
    assume "take (length p) (c # cs) = p"
    then have "c # cs = p @ drop (length p) (c # cs)"
      by (metis append_take_drop_id)
    then show "\<exists>b. c # cs = p @ b" ..
  next
    assume "\<exists>b. c # cs = p @ b"
    then show "take (length p) (c # cs) = p" by auto
  qed
  show ?case
  proof
    assume "is_substring p (c # cs)"
    then consider "take (length p) (c # cs) = p" | "is_substring p cs" by auto
    then show "\<exists>a b. c # cs = a @ p @ b"
    proof cases
      case 1
      with pre obtain b where "c # cs = p @ b" by blast
      then have "c # cs = [] @ p @ b" by simp
      then show ?thesis by blast
    next
      case 2
      with Cons.IH obtain a b where "cs = a @ p @ b" by blast
      then have "c # cs = (c # a) @ p @ b" by simp
      then show ?thesis by blast
    qed
  next
    assume "\<exists>a b. c # cs = a @ p @ b"
    then obtain a b where ab: "c # cs = a @ p @ b" by blast
    show "is_substring p (c # cs)"
    proof (cases a)
      case Nil
      with ab have "\<exists>b. c # cs = p @ b" by auto
      with pre have "take (length p) (c # cs) = p" by blast
      then show ?thesis by simp
    next
      case (Cons x xs)
      with ab have "cs = xs @ p @ b" by simp
      with Cons.IH have "is_substring p cs" by blast
      then show ?thesis by simp
    qed
  qed
qed

text \<open>
  A \<^verbatim>\<open>permissions\<close> claim that is not a list: in a string the operator \<^verbatim>\<open>in\<close> looks for
  a substring, so the empty permission is always found; a number is not iterable.
\<close>

lemma check_permissions_string_claim:
  "check_permissions '''' [(''permissions'', JStr ''get:students'')] = Inr True
   \<and> check_permissions ''get'' [(''permissions'', JStr ''get:students'')] = Inr True"
  by code_simp

lemma check_permissions_number_claim:
  "check_permissions ''get:students'' [(''permissions'', JInt 3)] = Inl TypeError"
  by code_simp

section \<open>Properties of the key lookup\<close>

lemma and_then_Inr: "and_then (Inr x) k = k x"
  by (simp add: and_then_def)

lemma and_then_Inl: "and_then (Inl e) k = Inl e"
  by (simp add: and_then_def)

lemma project_key_well_formed:
  assumes "well_formed_jwk key"
  shows "\<exists>kvs kty kid use n e.
           key = JObj kvs \<and> map_of kvs ''kty'' = Some kty \<and> map_of kvs ''kid'' = Some kid
           \<and> map_of kvs ''use'' = Some use \<and> map_of kvs ''n'' = Some n
           \<and> map_of kvs ''e'' = Some e
           \<and> project_key key =
               Inr [(''kty'', kty), (''kid'', kid), (''use'', use), (''n'', n), (''e'', e)]"
  using assms
  by (cases key) (auto simp: well_formed_jwk_def project_key_def and_then_def)

lemma select_key_no_match:
  assumes "map_of hdr ''kid'' = Some hkid"
    and "py_getitem key ''kid'' = Inr kid" and "\<not> kid_matches hkid key"
  shows "select_key key hdr rk = Inr rk"
  using assms by (simp add: select_key_def kid_matches_def and_then_def)

lemma select_key_match:
  assumes "map_of hdr ''kid'' = Some hkid" and "kid_matches hkid key"
  shows "select_key key hdr rk = project_key key"
  using assms
  by (auto simp: select_key_def kid_matches_def and_then_def split: sum.splits)

lemma rsa_key_loop_last_match:
  assumes "map_of hdr ''kid'' = Some hkid" and "\<forall>key \<in> set keys. well_formed_jwk key"
  shows "rsa_key_loop keys hdr rk =
           (case last_matching_key keys hkid of None \<Rightarrow> Inr rk | Some key \<Rightarrow> project_key key)"
  using assms(2)
proof (induction keys arbitrary: rk)
  case Nil
  show ?case by (simp add: last_matching_key_def)
next
  case (Cons key keys)
  from Cons.prems have wf: "well_formed_jwk key" and rest: "\<forall>k \<in> set keys. well_formed_jwk k"
    by simp_all
  from project_key_well_formed [OF wf] obtain kvs kid rk' where
    key: "key = JObj kvs" and kid: "map_of kvs ''kid'' = Some kid" and proj: "project_key key = Inr rk'"
    by blast
  show ?case
  proof (cases "kid_matches hkid key")
    case True
    with assms(1) have "select_key key hdr rk = Inr rk'"
      by (simp add: select_key_match proj)
    then have "rsa_key_loop (key # keys) hdr rk = rsa_key_loop keys hdr rk'" by simp
    also have "\<dots> = (case last_matching_key keys hkid of None \<Rightarrow> Inr rk' | Some k \<Rightarrow> project_key k)"
      by (rule Cons.IH [OF rest])
    also have "\<dots> = (case last_matching_key (key # keys) hkid of None \<Rightarrow> Inr rk | Some k \<Rightarrow> project_key k)"
      using True proj by (simp add: last_matching_key_def split: list.splits)
    finally show ?thesis .
  next
    case False
    with assms(1) key kid have "select_key key hdr rk = Inr rk"
      by (simp add: select_key_no_match)
    then have "rsa_key_loop (key # keys) hdr rk = rsa_key_loop keys hdr rk" by simp
    also have "\<dots> = (case last_matching_key keys hkid of None \<Rightarrow> Inr rk | Some k \<Rightarrow> project_key k)"
      by (rule Cons.IH [OF rest])
    also have "\<dots> = (case last_matching_key (key # keys) hkid of None \<Rightarrow> Inr rk | Some k \<Rightarrow> project_key k)"
      using False by (simp add: last_matching_key_def)
    finally show ?thesis .
  qed
qed

lemma rsa_key_loop_no_match:
  assumes "map_of hdr ''kid'' = Some hkid"
    and "\<forall>key \<in> set keys. \<exists>kid. py_getitem key ''kid'' = Inr kid \<and> \<not> py_eq kid hkid"
  shows "rsa_key_loop keys hdr rk = Inr rk"
  using assms(2)
proof (induction keys)
  case Nil
  show ?case by simp
next
  case (Cons key keys)
  then obtain kid where "py_getitem key ''kid'' = Inr kid" and "\<not> py_eq kid hkid"
    by auto
  with assms(1) have "select_key key hdr rk = Inr rk"
    by (simp add: select_key_def and_then_def)
  with Cons show ?case by simp
qed

text \<open>A record without a \<^verbatim>\<open>kid\<close> ends the loop with \<^verbatim>\<open>KeyError\<close> on line 114.\<close>

lemma rsa_key_loop_record_without_kid:
  "rsa_key_loop [JObj [(''kty'', JStr ''RSA''), (''n'', JStr ''N1''), (''e'', JStr ''AQAB'')]]
     [(''kid'', JStr ''k1'')] [] = Inl (KeyError ''kid'')"
  by code_simp

lemma last_matching_key_member:
  assumes "last_matching_key keys hkid = Some key"
  shows "key \<in> set keys \<and> kid_matches hkid key"
proof -
  let ?ms = "filter (kid_matches hkid) keys"
  from assms have ne: "?ms \<noteq> []" and key: "key = last ?ms"
    by (auto simp: last_matching_key_def split: list.splits)
  from ne have "last ?ms \<in> set ?ms" by (rule last_in_set)
  with key have "key \<in> set ?ms" by simp
  then show ?thesis by simp
qed

lemma find_rsa_key_array:
  "map_of jwks ''keys'' = Some (JArr keys) \<Longrightarrow>
   find_rsa_key (JObj jwks) unverified_header = rsa_key_loop keys unverified_header []"
  by (simp add: find_rsa_key_def and_then_def)

text \<open>
  Claim C3, as amended. For a JWKS document whose \<^verbatim>\<open>keys\<close> array holds records that each
  carry \<^verbatim>\<open>kty\<close>, \<^verbatim>\<open>kid\<close>, \<^verbatim>\<open>use\<close>, \<^verbatim>\<open>n\<close> and \<^verbatim>\<open>e\<close>, and for the key identifier of the
  token's header, the lookup of lines 113 to 121 selects the last record of the array whose
  \<^verbatim>\<open>kid\<close> equals the identifier and projects exactly these five fields from it; when no
  record matches, the result is the empty dict.
\<close>

theorem C3_lookup_selects_last_match:
  assumes "map_of jwks ''keys'' = Some (JArr keys)"
    and "map_of unverified_header ''kid'' = Some hkid"
    and "\<forall>key \<in> set keys. well_formed_jwk key"
  shows "find_rsa_key (JObj jwks) unverified_header =
           (case last_matching_key keys hkid of None \<Rightarrow> Inr [] | Some key \<Rightarrow> project_key key)
         \<and> (\<forall>key. last_matching_key keys hkid = Some key \<longrightarrow>
               (\<exists>kvs kty kid use n e.
                  key = JObj kvs \<and> map_of kvs ''kty'' = Some kty \<and> map_of kvs ''kid'' = Some kid
                  \<and> map_of kvs ''use'' = Some use \<and> map_of kvs ''n'' = Some n
                  \<and> map_of kvs ''e'' = Some e
                  \<and> project_key key =
                      Inr [(''kty'', kty), (''kid'', kid), (''use'', use), (''n'', n), (''e'', e)]))"
proof (intro conjI allI impI)
  show "find_rsa_key (JObj jwks) unverified_header =
          (case last_matching_key keys hkid of None \<Rightarrow> Inr [] | Some key \<Rightarrow> project_key key)"
    using assms by (simp add: find_rsa_key_array rsa_key_loop_last_match)
next
  fix key
  assume "last_matching_key keys hkid = Some key"
  then have "key \<in> set keys" by (simp add: last_matching_key_member)
  with assms(3) have "well_formed_jwk key" by simp
  then show "\<exists>kvs kty kid use n e.
                  key = JObj kvs \<and> map_of kvs ''kty'' = Some kty \<and> map_of kvs ''kid'' = Some kid
                  \<and> map_of kvs ''use'' = Some use \<and> map_of kvs ''n'' = Some n
                  \<and> map_of kvs ''e'' = Some e
                  \<and> project_key key =
                      Inr [(''kty'', kty), (''kid'', kid), (''use'', use), (''n'', n), (''e'', e)]"
    by (rule project_key_well_formed)
qed

text \<open>
  The claim as the specification states it, with the first matching record, fails on an
  array that holds two records with the same \<^verbatim>\<open>kid\<close>: the lookup returns the modulus of
  the second.
\<close>

theorem C3_first_match_counterexample:
  "first_matching_key [sample_key ''k1'' ''N1'', sample_key ''k1'' ''N2''] (JStr ''k1'') =
     Some (sample_key ''k1'' ''N1'')
   \<and> find_rsa_key (JObj [(''keys'', JArr [sample_key ''k1'' ''N1'', sample_key ''k1'' ''N2''])])
         [(''kid'', JStr ''k1'')] \<noteq>
       spec_key_lookup [sample_key ''k1'' ''N1'', sample_key ''k1'' ''N2''] (JStr ''k1'')
   \<and> find_rsa_key (JObj [(''keys'', JArr [sample_key ''k1'' ''N1'', sample_key ''k1'' ''N2''])])
         [(''kid'', JStr ''k1'')] =
       Inr [(''kty'', JStr ''RSA''), (''kid'', JStr ''k1''), (''use'', JStr ''sig''),
            (''n'', JStr ''N2''), (''e'', JStr ''AQAB'')]"
  by code_simp

text \<open>The amended claim on an array of three records, two of them with the \<^verbatim>\<open>kid\<close> sought.\<close>

theorem C3_lookup_selects_last_match_witness:
  "find_rsa_key
     (JObj [(''keys'',
             JArr [sample_key ''k1'' ''N1'', sample_key ''k2'' ''N2'', sample_key ''k1'' ''N3''])])
     [(''alg'', JStr ''RS256''), (''kid'', JStr ''k1'')] =
   Inr [(''kty'', JStr ''RSA''), (''kid'', JStr ''k1''), (''use'', JStr ''sig''),
        (''n'', JStr ''N3''), (''e'', JStr ''AQAB'')]"
proof -
  let ?keys = "[sample_key ''k1'' ''N1'', sample_key ''k2'' ''N2'', sample_key ''k1'' ''N3'']"
  let ?hdr = "[(''alg'', JStr ''RS256''), (''kid'', JStr ''k1'')]"
  have h0: "map_of [(''keys'', JArr ?keys)] ''keys'' = Some (JArr ?keys)" by simp
  have h1: "map_of ?hdr ''kid'' = Some (JStr ''k1'')" by simp
  have h2: "\<forall>key \<in> set ?keys. well_formed_jwk key"
    by (simp add: well_formed_jwk_def sample_key_def)
  have l: "last_matching_key ?keys (JStr ''k1'') = Some (sample_key ''k1'' ''N3'')"
    by (simp add: last_matching_key_def kid_matches_def sample_key_def)
  have p: "project_key (sample_key ''k1'' ''N3'') =
      Inr [(''kty'', JStr ''RSA''), (''kid'', JStr ''k1''), (''use'', JStr ''sig''),
        (''n'', JStr ''N3''), (''e'', JStr ''AQAB'')]"
    by (simp add: project_key_def sample_key_def and_then_def)
  from C3_lookup_selects_last_match [OF h0 h1 h2] l p show ?thesis by simp
qed

section \<open>Properties of the verifier\<close>

text \<open>Every run of the verifier requests the key set once, whatever its outcome.\<close>

lemma verify_decode_jwt_world:
  "snd (verify_decode_jwt env token w) = w\<lparr>fetched := fetched w @ [jwks_url env]\<rparr>"
  by (simp add: verify_decode_jwt_def then_action_def pure_action_def raise_action_def
      urlopen_def split: sum.splits)

text \<open>
  Lines 102 to 104 stand before the \<^verbatim>\<open>try\<close> statement: an exception of the download or
  of the header parser leaves the verifier as it is.
\<close>

lemma verify_fetch_error:
  assumes "urlopen_json env (jwks_url env) = Inl e"
  shows "verify_decode_jwt env token w = (Inl e, w\<lparr>fetched := fetched w @ [jwks_url env]\<rparr>)"
  using assms by (simp add: verify_decode_jwt_def then_action_def urlopen_def)

lemma verify_header_error:
  assumes "urlopen_json env (jwks_url env) = Inr jwks"
    and "get_unverified_header env token = Inl e"
  shows "verify_decode_jwt env token w = (Inl e, w\<lparr>fetched := fetched w @ [jwks_url env]\<rparr>)"
  using assms by (simp add: verify_decode_jwt_def then_action_def urlopen_def pure_action_def)

text \<open>The verifier once the key set is fetched and the header holds a \<^verbatim>\<open>kid\<close>.\<close>

lemma verify_with_key:
  assumes "urlopen_json env (jwks_url env) = Inr jwks"
    and "get_unverified_header env token = Inr unverified_header"
    and "map_of unverified_header ''kid'' = Some hkid"
    and "find_rsa_key jwks unverified_header = Inr rsa_key"
  shows "verify_decode_jwt env token w =
           (if rsa_key \<noteq> [] then try_decode env token rsa_key
            else Inl (AuthError 400 ''invalid_header'' ''Unable to find the appropriate key.'' 400),
            w\<lparr>fetched := fetched w @ [jwks_url env]\<rparr>)"
  using assms
  by (simp add: verify_decode_jwt_def then_action_def urlopen_def pure_action_def
      raise_action_def)

text \<open>
  Inside the \<^verbatim>\<open>try\<close> statement the third clause turns every exception that is neither an
  expiry nor a claims error into \<^verbatim>\<open>AuthError\<close> 400 \<^verbatim>\<open>invalid_header\<close>.
\<close>

lemma verify_other_decode_failure:
  assumes "urlopen_json env (jwks_url env) = Inr jwks"
    and "get_unverified_header env token = Inr unverified_header"
    and "map_of unverified_header ''kid'' = Some hkid"
    and "find_rsa_key jwks unverified_header = Inr rsa_key" and "rsa_key \<noteq> []"
    and "AUTH0_DOMAIN env = Some d"
    and "jwt_decode env token rsa_key (ALGORITHMS env) (API_AUDIENCE env)
           (''https://'' @ d @ ''/'') = Inl e"
    and "e \<noteq> ExpiredSignatureError" and "e \<noteq> JWTClaimsError"
  shows "verify_decode_jwt env token w =
           (Inl (AuthError 400 ''invalid_header'' ''Unable to parse authentication token.'' 400),
            w\<lparr>fetched := fetched w @ [jwks_url env]\<rparr>)"
proof -
  from assms(8,9) have "decode_handler e =
      AuthError 400 ''invalid_header'' ''Unable to parse authentication token.'' 400"
    by (cases e) simp_all
  with assms(6,7) have "try_decode env token rsa_key =
      Inl (AuthError 400 ''invalid_header'' ''Unable to parse authentication token.'' 400)"
    by (simp add: try_decode_def)
  with assms(5) verify_with_key [OF assms(1-4)] show ?thesis by simp
qed

text \<open>
  Claim C2. The claim asks that a token failing verification for a reason other than
  expiry or a claims mismatch, a malformed token included, ends in \<^verbatim>\<open>AuthError\<close> 400
  \<^verbatim>\<open>invalid_header\<close>, and that no failure leaves the pipeline as another exception.
  For the header \<^verbatim>\<open>Bearer abc\<close> the extractor returns the token \<^verbatim>\<open>abc\<close>; the library
  cannot read a header out of it and raises \<^verbatim>\<open>JWTError\<close> on line 104, outside the
  \<^verbatim>\<open>try\<close> statement, and the verifier ends in that \<^verbatim>\<open>JWTError\<close>.
\<close>

theorem C2_malformed_token_raises_JWTError:
  "get_token_auth_header (Some ''Bearer abc'') = Inr ''abc''
   \<and> verify_decode_jwt sample_env ''abc'' \<lparr>fetched = []\<rparr> =
       (Inl JWTError, \<lparr>fetched = [''https://example.auth0.com/.well-known/jwks.json'']\<rparr>)"
  by code_simp

text \<open>
  Claim C7, as amended. When the key set is fetched, its \<^verbatim>\<open>keys\<close> array holds records
  that each carry a \<^verbatim>\<open>kid\<close>, the token's header holds a \<^verbatim>\<open>kid\<close>, and no record's
  \<^verbatim>\<open>kid\<close> equals it, the verifier raises \<^verbatim>\<open>AuthError\<close> 400 \<^verbatim>\<open>invalid_header\<close> with
  the description \<^verbatim>\<open>Unable to find the appropriate key.\<close>
\<close>

theorem C7_no_matching_key:
  assumes "urlopen_json env (jwks_url env) = Inr (JObj jwks)"
    and "map_of jwks ''keys'' = Some (JArr keys)"
    and "get_unverified_header env token = Inr unverified_header"
    and "map_of unverified_header ''kid'' = Some hkid"
    and "\<forall>key \<in> set keys. \<exists>kid. py_getitem key ''kid'' = Inr kid \<and> \<not> py_eq kid hkid"
  shows "verify_decode_jwt env token w =
           (Inl (AuthError 400 ''invalid_header'' ''Unable to find the appropriate key.'' 400),
            w\<lparr>fetched := fetched w @ [jwks_url env]\<rparr>)"
proof -
  from assms(4,5) have "rsa_key_loop keys unverified_header [] = Inr []"
    by (rule rsa_key_loop_no_match)
  with assms(2) have "find_rsa_key (JObj jwks) unverified_header = Inr []"
    by (simp add: find_rsa_key_array)
  from verify_with_key [OF assms(1) assms(3) assms(4) this] show ?thesis by simp
qed

text \<open>
  The scenario of the specification: the token \<^verbatim>\<open>abc.def.ghi\<close> whose header names the key
  \<^verbatim>\<open>k9\<close>, against a key set that holds \<^verbatim>\<open>k1\<close> and \<^verbatim>\<open>k2\<close>.
\<close>

theorem C7_no_matching_key_witness:
  "verify_decode_jwt
     (sample_env\<lparr>get_unverified_header := (\<lambda>t. Inr [(''alg'', JStr ''RS256''), (''kid'', JStr ''k9'')])\<rparr>)
     ''abc.def.ghi'' \<lparr>fetched = []\<rparr> =
   (Inl (AuthError 400 ''invalid_header'' ''Unable to find the appropriate key.'' 400),
    \<lparr>fetched = [''https://example.auth0.com/.well-known/jwks.json'']\<rparr>)"
proof -
  let ?hdr = "[(''alg'', JStr ''RS256''), (''kid'', JStr ''k9'')]"
  let ?env = "sample_env\<lparr>get_unverified_header := (\<lambda>t. Inr ?hdr)\<rparr>"
  let ?keys = "[sample_key ''k1'' ''N1'', sample_key ''k2'' ''N2'']"
  have url: "jwks_url ?env = ''https://example.auth0.com/.well-known/jwks.json''"
    by (simp add: jwks_url_def sample_env_def)
  have h1: "urlopen_json ?env (jwks_url ?env) = Inr (JObj [(''keys'', JArr ?keys)])"
    by (simp add: url) (simp add: sample_env_def sample_jwks_def)
  have h2: "map_of [(''keys'', JArr ?keys)] ''keys'' = Some (JArr ?keys)" by simp
  have h3: "get_unverified_header ?env ''abc.def.ghi'' = Inr ?hdr" by simp
  have h4: "map_of ?hdr ''kid'' = Some (JStr ''k9'')" by simp
  have h5: "\<forall>key \<in> set ?keys. \<exists>kid. py_getitem key ''kid'' = Inr kid \<and> \<not> py_eq kid (JStr ''k9'')"
    by (simp add: sample_key_def)
  from C7_no_matching_key [OF h1 h2 h3 h4 h5, of "\<lparr>fetched = []\<rparr>"] url
  show ?thesis by simp
qed

text \<open>
  The claim as the specification states it, for every fetched keys array, fails on the
  array whose one record has no \<^verbatim>\<open>kid\<close>: the header's \<^verbatim>\<open>kid\<close> matches no record, and
  the verifier ends in \<^verbatim>\<open>KeyError\<close> from line 114.
\<close>

theorem C7_record_without_kid_counterexample:
  "urlopen_json kidless_env (jwks_url kidless_env) = Inr kidless_jwks
   \<and> get_unverified_header kidless_env ''h.p.s'' = Inr sample_header
   \<and> map_of sample_header ''kid'' = Some (JStr ''k2'')
   \<and> py_getitem kidless_jwks ''keys'' =
       Inr (JArr [JObj [(''kty'', JStr ''RSA''), (''use'', JStr ''sig''), (''n'', JStr ''N1''),
                        (''e'', JStr ''AQAB'')]])
   \<and> first_matching_key
         [JObj [(''kty'', JStr ''RSA''), (''use'', JStr ''sig''), (''n'', JStr ''N1''),
                (''e'', JStr ''AQAB'')]] (JStr ''k2'') = None
   \<and> verify_decode_jwt kidless_env ''h.p.s'' \<lparr>fetched = []\<rparr> =
       (Inl (KeyError ''kid''),
        \<lparr>fetched = [''https://example.auth0.com/.well-known/jwks.json'']\<rparr>)"
  by code_simp



section \<open>Properties of the guard\<close>

lemma then_action_pure:
  "then_action (pure_action r) k w = (case r of Inl e \<Rightarrow> (Inl e, w) | Inr x \<Rightarrow> k x w)"
  by (simp add: then_action_def pure_action_def split: sum.splits)

text \<open>The four ways through the wrapper, one per stage that ends it.\<close>

lemma wrapper_extraction_fails:
  assumes "get_token_auth_header (authorization env) = Inl e"
  shows "wrapper env permission f args w = (Inl e, w)"
  using assms by (simp add: wrapper_def then_action_pure)

lemma wrapper_verification_fails:
  assumes "get_token_auth_header (authorization env) = Inr token"
    and "verify_decode_jwt env token w = (Inl e, w')"
  shows "wrapper env permission f args w = (Inl e, w')"
  using assms by (simp add: wrapper_def then_action_pure) (simp add: then_action_def)

lemma wrapper_check_fails:
  assumes "get_token_auth_header (authorization env) = Inr token"
    and "verify_decode_jwt env token w = (Inr payload, w')"
    and "check_permissions permission payload = Inl e"
  shows "wrapper env permission f args w = (Inl e, w')"
  using assms by (simp add: wrapper_def then_action_pure) (simp add: then_action_def pure_action_def)

lemma wrapper_calls_operation:
  assumes "get_token_auth_header (authorization env) = Inr token"
    and "verify_decode_jwt env token w = (Inr payload, w')"
    and "check_permissions permission payload = Inr ok"
  shows "wrapper env permission f args w = f token args w'"
  using assms by (simp add: wrapper_def then_action_pure) (simp add: then_action_def pure_action_def)

text \<open>
  Claim C4. An operation wrapped by \<^verbatim>\<open>requires_auth\<close> runs the stages in the order
  extraction, verification, permission check, wrapped operation. When extraction raises,
  that exception is the outcome and the world is untouched (nothing was fetched, the
  operation did not run). When verification of the extracted token raises, that exception
  is the outcome, in the world verification left. When the permission check on the
  verified claims raises, that exception is the outcome. When all three succeed, the
  outcome is that of the wrapped operation, called with the extracted token in the world
  verification left.
\<close>

theorem C4_guard_stages:
  "(get_token_auth_header (authorization env) = Inl e \<longrightarrow>
      requires_auth env (Some permission) f args w = (Inl e, w))
   \<and> (get_token_auth_header (authorization env) = Inr token
        \<and> verify_decode_jwt env token w = (Inl e, w') \<longrightarrow>
      requires_auth env (Some permission) f args w = (Inl e, w'))
   \<and> (get_token_auth_header (authorization env) = Inr token
        \<and> verify_decode_jwt env token w = (Inr payload, w')
        \<and> check_permissions permission payload = Inl e \<longrightarrow>
      requires_auth env (Some permission) f args w = (Inl e, w'))
   \<and> (get_token_auth_header (authorization env) = Inr token
        \<and> verify_decode_jwt env token w = (Inr payload, w')
        \<and> check_permissions permission payload = Inr ok \<longrightarrow>
      requires_auth env (Some permission) f args w = f token args w')"
  by (simp add: requires_auth_def wrapper_extraction_fails wrapper_verification_fails
      wrapper_check_fails wrapper_calls_operation)

text \<open>The sample token verifies, after one request for the key set.\<close>

lemma sample_verify:
  "verify_decode_jwt sample_env ''h.p.s'' \<lparr>fetched = []\<rparr> =
     (Inr sample_payload, \<lparr>fetched = [''https://example.auth0.com/.well-known/jwks.json'']\<rparr>)"
  by code_simp

text \<open>
  The four cases in the scenario: a \<^verbatim>\<open>Basic\<close> header, an expired token, a permission the
  token lacks, and a permission it holds.
\<close>

theorem C4_guard_stages_witness:
  "requires_auth (sample_env\<lparr>authorization := Some ''Basic dXNlcjpwdw==''\<rparr>) (Some ''get:students'')
     echo_token () \<lparr>fetched = []\<rparr> =
     (Inl (AuthError 401 ''invalid_header''
             (''Authorization header must start with '' @ [CHR 0x22] @ ''Bearer'' @ [CHR 0x22] @ ''.'') 401),
      \<lparr>fetched = []\<rparr>)
   \<and> requires_auth
         (sample_env\<lparr>jwt_decode := (\<lambda>t key algs aud iss. Inl ExpiredSignatureError)\<rparr>)
         (Some ''get:students'') echo_token () \<lparr>fetched = []\<rparr> =
     (Inl (AuthError 401 ''token_expired'' ''Token expired.'' 401),
      \<lparr>fetched = [''https://example.auth0.com/.well-known/jwks.json'']\<rparr>)
   \<and> requires_auth sample_env (Some ''post:students'') echo_token () \<lparr>fetched = []\<rparr> =
     (Inl (AuthError 403 ''unauthorized'' ''Permission not found.'' 403),
      \<lparr>fetched = [''https://example.auth0.com/.well-known/jwks.json'']\<rparr>)
   \<and> requires_auth sample_env (Some ''get:students'') echo_token () \<lparr>fetched = []\<rparr> =
     (Inr ''h.p.s'', \<lparr>fetched = [''https://example.auth0.com/.well-known/jwks.json'']\<rparr>)"
proof -
  let ?w = "\<lparr>fetched = []\<rparr>"
  let ?w' = "\<lparr>fetched = [''https://example.auth0.com/.well-known/jwks.json'']\<rparr>"
  let ?basic = "sample_env\<lparr>authorization := Some ''Basic dXNlcjpwdw==''\<rparr>"
  let ?old = "sample_env\<lparr>jwt_decode := (\<lambda>t key algs aud iss. Inl ExpiredSignatureError)\<rparr>"
  let ?e2 = "AuthError 401 ''token_expired'' ''Token expired.'' 401"
  let ?e1 = "AuthError 401 ''invalid_header''
             (''Authorization header must start with '' @ [CHR 0x22] @ ''Bearer'' @ [CHR 0x22] @ ''.'') 401"
  have a1: "get_token_auth_header (authorization ?basic) = Inl ?e1"
    by code_simp
  have b1: "get_token_auth_header (authorization ?old) = Inr ''h.p.s''"
    by code_simp
  have b2: "verify_decode_jwt ?old ''h.p.s'' ?w = (Inl ?e2, ?w')"
    by code_simp
  have c1: "get_token_auth_header (authorization sample_env) = Inr ''h.p.s''"
    by code_simp
  have c2: "verify_decode_jwt sample_env ''h.p.s'' ?w = (Inr sample_payload, ?w')"
    by (rule sample_verify)
  have c3: "check_permissions ''post:students'' sample_payload =
      Inl (AuthError 403 ''unauthorized'' ''Permission not found.'' 403)"
    by code_simp
  have d3: "check_permissions ''get:students'' sample_payload = Inr True"
    by code_simp
  from
    C4_guard_stages [of ?basic ?e1 "''get:students''" echo_token "()" ?w]
    C4_guard_stages [of ?old ?e2 "''get:students''" echo_token "()" ?w "''h.p.s''" ?w']
    C4_guard_stages [of sample_env "AuthError 403 ''unauthorized'' ''Permission not found.'' 403"
      "''post:students''" echo_token "()" ?w "''h.p.s''" ?w' sample_payload]
    C4_guard_stages [of sample_env _ "''get:students''" echo_token "()" ?w "''h.p.s''" ?w'
      sample_payload True]
    a1 b1 b2 c1 c2 c3 d3
  show ?thesis by (simp add: echo_token_def)
qed

text \<open>
  Claim C6. For a request without an \<^verbatim>\<open>Authorization\<close> header the guard raises
  \<^verbatim>\<open>AuthError\<close> 401 \<^verbatim>\<open>authorization_header_missing\<close> and leaves the world as it was:
  the key set is not requested, the verifier not being reached.
\<close>

theorem C6_missing_header:
  assumes "authorization env = None"
  shows "requires_auth env permission_arg f args w =
           (Inl (AuthError 401 ''authorization_header_missing''
                   ''Authorization header is expected.'' 401), w)
         \<and> fetched (snd (requires_auth env permission_arg f args w)) = fetched w"
proof -
  from assms have "get_token_auth_header (authorization env) =
      Inl (AuthError 401 ''authorization_header_missing''
             ''Authorization header is expected.'' 401)"
    by (simp add: get_token_auth_header_def)
  then show ?thesis
    by (simp add: requires_auth_def wrapper_extraction_fails)
qed

text \<open>The scenario without the header.\<close>

theorem C6_missing_header_witness:
  "requires_auth (sample_env\<lparr>authorization := None\<rparr>) (Some ''get:students'') echo_token ()
     \<lparr>fetched = []\<rparr> =
   (Inl (AuthError 401 ''authorization_header_missing''
           ''Authorization header is expected.'' 401), \<lparr>fetched = []\<rparr>)"
proof -
  have h: "authorization (sample_env\<lparr>authorization := None\<rparr>) = None" by simp
  from C6_missing_header [OF h, of "Some ''get:students''" echo_token "()" "\<lparr>fetched = []\<rparr>"]
  show ?thesis by simp
qed

text \<open>
  Claim C5, as amended. \<^verbatim>\<open>requires_auth\<close> called without a permission guards with the
  empty string. For claims whose \<^verbatim>\<open>permissions\<close> entry is a list, the checker with the
  empty string as the required permission succeeds only when the empty string is a member
  of the list; otherwise it raises \<^verbatim>\<open>AuthError\<close> 403 \<^verbatim>\<open>unauthorized\<close>, and so does the
  guard when extraction and verification have succeeded. For claims without a
  \<^verbatim>\<open>permissions\<close> entry it raises \<^verbatim>\<open>AuthError\<close> 400 \<^verbatim>\<open>invalid_claims\<close>.
\<close>

theorem C5_empty_permission:
  "(map_of payload ''permissions'' = None \<longrightarrow>
      check_permissions '''' payload =
        Inl (AuthError 400 ''invalid_claims'' ''Permissions not included in JWT.'' 400))
   \<and> (map_of payload ''permissions'' = Some (JArr perms) \<longrightarrow>
      check_permissions '''' payload =
        (if JStr '''' \<in> set perms then Inr True
         else Inl (AuthError 403 ''unauthorized'' ''Permission not found.'' 403)))
   \<and> requires_auth env None f = wrapper env '''' f
   \<and> (map_of payload ''permissions'' = Some (JArr perms)
        \<and> get_token_auth_header (authorization env) = Inr token
        \<and> verify_decode_jwt env token w = (Inr payload, w')
        \<and> JStr '''' \<notin> set perms \<longrightarrow>
      requires_auth env None f args w =
        (Inl (AuthError 403 ''unauthorized'' ''Permission not found.'' 403), w'))"
proof -
  have none: "map_of payload ''permissions'' = None \<Longrightarrow>
      check_permissions '''' payload =
        Inl (AuthError 400 ''invalid_claims'' ''Permissions not included in JWT.'' 400)"
    by (simp add: check_permissions_def)
  have chk: "map_of payload ''permissions'' = Some (JArr perms) \<Longrightarrow>
      check_permissions '''' payload =
           (if JStr '''' \<in> set perms then Inr True
            else Inl (AuthError 403 ''unauthorized'' ''Permission not found.'' 403))"
    by (simp add: check_permissions_def list_ex_iff py_eq_JStr)
  have dflt: "requires_auth env None f = wrapper env '''' f"
    by (simp add: requires_auth_def)
  from none chk show ?thesis
    by (simp add: dflt wrapper_check_fails)
qed

text \<open>
  Claims without the entry, the sample claims with the list \<^verbatim>\<open>["get:students"]\<close>, a list
  that holds the empty string, and the default guard on the sample token.
\<close>

theorem C5_empty_permission_witness:
  "check_permissions '''' [(''sub'', JStr ''auth0|1'')] =
     Inl (AuthError 400 ''invalid_claims'' ''Permissions not included in JWT.'' 400)
   \<and> check_permissions '''' sample_payload =
     Inl (AuthError 403 ''unauthorized'' ''Permission not found.'' 403)
   \<and> check_permissions '''' [(''permissions'', JArr [JStr ''get:students'', JStr ''''])] = Inr True
   \<and> requires_auth sample_env None echo_token () \<lparr>fetched = []\<rparr> =
     (Inl (AuthError 403 ''unauthorized'' ''Permission not found.'' 403),
      \<lparr>fetched = [''https://example.auth0.com/.well-known/jwks.json'']\<rparr>)"
proof -
  let ?w = "\<lparr>fetched = []\<rparr>"
  let ?w' = "\<lparr>fetched = [''https://example.auth0.com/.well-known/jwks.json'']\<rparr>"
  have h: "map_of sample_payload ''permissions'' = Some (JArr [JStr ''get:students''])"
    by (simp add: sample_payload_def)
  have c1: "get_token_auth_header (authorization sample_env) = Inr ''h.p.s''"
    by code_simp
  have c2: "verify_decode_jwt sample_env ''h.p.s'' ?w = (Inr sample_payload, ?w')"
    by (rule sample_verify)
  have c3: "JStr '''' \<notin> set [JStr ''get:students'']" by simp
  note t = C5_empty_permission [where payload = sample_payload
      and perms = "[JStr ''get:students'']" and env = sample_env and f = echo_token
      and token = "''h.p.s''" and w = ?w and w' = ?w' and args = "()"]
  from t h c3 have p1: "check_permissions '''' sample_payload =
      Inl (AuthError 403 ''unauthorized'' ''Permission not found.'' 403)"
    by simp
  from t h c1 c2 c3 have p2: "requires_auth sample_env None echo_token () ?w =
      (Inl (AuthError 403 ''unauthorized'' ''Permission not found.'' 403), ?w')"
    by blast
  have p0: "check_permissions '''' [(''sub'', JStr ''auth0|1'')] =
     Inl (AuthError 400 ''invalid_claims'' ''Permissions not included in JWT.'' 400)"
    using C5_empty_permission [where payload = "[(''sub'', JStr ''auth0|1'')]"
        and perms = "[]" and env = sample_env and f = echo_token
        and token = "''h.p.s''" and w = ?w and w' = ?w' and args = "()"] by simp
  have p3: "check_permissions '''' [(''permissions'', JArr [JStr ''get:students'', JStr ''''])] = Inr True"
    using C5_empty_permission [where payload = "[(''permissions'', JArr [JStr ''get:students'', JStr ''''])]"
        and perms = "[JStr ''get:students'', JStr '''']" and env = sample_env and f = echo_token
        and token = "''h.p.s''" and w = ?w and w' = ?w' and args = "()"] by simp
  from p0 p1 p3 p2 show ?thesis by blast
qed

text \<open>
  The claim as the specification states it fails on claims whose \<^verbatim>\<open>permissions\<close> entry is
  the string \<^verbatim>\<open>rw\<close>: its elements are \<^verbatim>\<open>r\<close> and \<^verbatim>\<open>w\<close>, the empty string is not
  among them, and the check succeeds. On claims without the entry the failure is 400
  \<^verbatim>\<open>invalid_claims\<close>, not 403.
\<close>

theorem C5_string_entry_counterexample:
  "py_iter (JStr ''rw'') = Inr [JStr ''r'', JStr ''w'']
   \<and> JStr '''' \<notin> set [JStr ''r'', JStr ''w'']
   \<and> check_permissions '''' [(''permissions'', JStr ''rw'')] = Inr True
   \<and> check_permissions '''' [(''sub'', JStr ''auth0|1'')] =
       Inl (AuthError 400 ''invalid_claims'' ''Permissions not included in JWT.'' 400)"
  by code_simp

end
